theory Spec2Isabelle
  imports Main "HOL-Library.Sublist"
begin

section \<open>The Google AppBuilder API wrapper\<close>

text \<open>
  A shallow embedding of \<^verbatim>\<open>langchain/utilities/google_appbuilder_api.py\<close>: the class
  \<^verbatim>\<open>GoogleAppBuilderAPIWrapper\<close> with its methods \<^verbatim>\<open>run\<close>,
  \<^verbatim>\<open>fetch_appbuilder_details\<close>, \<^verbatim>\<open>format_appbuilder_details\<close> and
  \<^verbatim>\<open>format_array\<close>.

  Conventions of the model:
  \<^item> a Python \<^verbatim>\<open>str\<close> is a \<^typ>\<open>string\<close>; one \<^typ>\<open>char\<close> stands for one code point, so
    the model covers the strings whose code points lie in 0..255, and \<^const>\<open>length\<close> is
    Python's \<^verbatim>\<open>len\<close>;
  \<^item> a value returned by \<^verbatim>\<open>json.loads\<close> is a \<open>json\<close>; a \<^verbatim>\<open>dict\<close> is the list of its
    items in insertion order;
  \<^item> a raised exception is \<open>Inl\<close> of an \<open>error\<close>; a method that catches it and returns
    \<^verbatim>\<open>None\<close> returns \<^const>\<open>None\<close>;
  \<^item> what \<^verbatim>\<open>print\<close> and \<^verbatim>\<open>logging.error\<close> emit is a list of \<open>event\<close>s returned next to
    the result, in the order of emission.
\<close>

subsection \<open>Values\<close>

text \<open>
  The only operation the module applies to a \<^verbatim>\<open>float\<close> is its conversion to text, so a
  float is represented by the text \<^verbatim>\<open>float.__repr__\<close> gives for it.
\<close>

datatype json =
    JNull
  | JBool bool
  | JInt int
  | JFloat string
  | JStr string
  | JArr "json list"
  | JObj "(string \<times> json) list"

datatype error =
    AttributeError
  | TypeError
  | KeyError
  | IndexError
  | OtherError string

datatype event =
    Print string
  | LogError string error

subsection \<open>Python built-ins used by the module\<close>

text \<open>\<^verbatim>\<open>p in s\<close> for two strings: \<open>p\<close> occurs in \<open>s\<close> as a contiguous substring.\<close>

fun str_in :: "string \<Rightarrow> string \<Rightarrow> bool" where
  "str_in p [] = (p = [])"
| "str_in p (c # cs) = (prefix p (c # cs) \<or> str_in p cs)"

text \<open>\<^verbatim>\<open>sep.join(xs)\<close>.\<close>

fun join :: "string \<Rightarrow> string list \<Rightarrow> string" where
  "join sep [] = []"
| "join sep [x] = x"
| "join sep (x # y # ys) = x @ sep @ join sep (y # ys)"

text \<open>The decimal text of a natural number, as \<^verbatim>\<open>str\<close> gives it for a non-negative \<^verbatim>\<open>int\<close>.\<close>

fun digits :: "nat \<Rightarrow> string" where
  "digits n = (if n < 10 then [''0123456789'' ! n]
               else digits (n div 10) @ [''0123456789'' ! (n mod 10)])"

declare digits.simps [simp del]

definition str_int :: "int \<Rightarrow> string" where
  "str_int i = (if i < 0 then ''-'' @ digits (nat (- i)) else digits (nat i))"

text \<open>
  \<^verbatim>\<open>repr\<close> of a string: the quote is \<^verbatim>\<open>"\<close> when the string holds a \<^verbatim>\<open>'\<close> and no \<^verbatim>\<open>"\<close>,
  and \<^verbatim>\<open>'\<close> otherwise; the quote and the backslash are escaped, tab, newline and carriage
  return get their letter escapes, and every other non-printable code point (below 0x20,
  0x7F to 0xA0, 0xAD) is written \<^verbatim>\<open>\xhh\<close>.
\<close>

definition repr_char :: "char \<Rightarrow> char \<Rightarrow> string" where
  "repr_char q c =
     (let n = (of_char c :: nat);
          hex = [CHR 0x5C, CHR ''x'',
                 ''0123456789abcdef'' ! (n div 16), ''0123456789abcdef'' ! (n mod 16)]
      in if c = q \<or> c = CHR 0x5C then [CHR 0x5C, c]
         else if c = CHR 0x09 then [CHR 0x5C, CHR ''t'']
         else if c = CHR 0x0A then [CHR 0x5C, CHR ''n'']
         else if c = CHR 0x0D then [CHR 0x5C, CHR ''r'']
         else if n < 0x20 \<or> n = 0x7F then hex
         else if n < 0x7F then [c]
         else if n \<le> 0xA0 \<or> n = 0xAD then hex
         else [c])"

definition repr_str :: "string \<Rightarrow> string" where
  "repr_str s =
     (let q = (if CHR 0x27 \<in> set s \<and> CHR 0x22 \<notin> set s then CHR 0x22 else CHR 0x27)
      in [q] @ concat (map (repr_char q) s) @ [q])"

text \<open>\<^verbatim>\<open>repr\<close> of a value that \<^verbatim>\<open>json.loads\<close> returns.\<close>

fun py_repr :: "json \<Rightarrow> string" where
  "py_repr JNull = ''None''"
| "py_repr (JBool b) = (if b then ''True'' else ''False'')"
| "py_repr (JInt i) = str_int i"
| "py_repr (JFloat t) = t"
| "py_repr (JStr s) = repr_str s"
| "py_repr (JArr vs) = ''['' @ join '', '' (map py_repr vs) @ '']''"
| "py_repr (JObj kvs) =
     ''{'' @ join '', '' (map (\<lambda>(k, v). repr_str k @ '': '' @ py_repr v) kvs) @ ''}''"

text \<open>
  \<^verbatim>\<open>str\<close> of a value, which is what a replacement field \<^verbatim>\<open>{value}\<close> of an f-string
  inserts: a string as it is, everything else as its \<^verbatim>\<open>repr\<close>.
\<close>

fun py_str :: "json \<Rightarrow> string" where
  "py_str (JStr s) = s"
| "py_str v = py_repr v"

text \<open>
  \<^verbatim>\<open>v.get(k, default)\<close>: only a \<^verbatim>\<open>dict\<close> has the method; on any other value the attribute
  lookup raises \<^verbatim>\<open>AttributeError\<close>.
\<close>

fun py_get :: "json \<Rightarrow> string \<Rightarrow> json \<Rightarrow> error + json" where
  "py_get (JObj d) k dflt = Inr (case map_of d k of None \<Rightarrow> dflt | Some v \<Rightarrow> v)"
| "py_get v k dflt = Inl AttributeError"

text \<open>\<^verbatim>\<open>len(v)\<close>: defined for \<^verbatim>\<open>dict\<close>, \<^verbatim>\<open>list\<close> and \<^verbatim>\<open>str\<close>, \<^verbatim>\<open>TypeError\<close> otherwise.\<close>

fun py_len :: "json \<Rightarrow> error + nat" where
  "py_len (JObj d) = Inr (length d)"
| "py_len (JArr vs) = Inr (length vs)"
| "py_len (JStr s) = Inr (length s)"
| "py_len v = Inl TypeError"

text \<open>
  \<^verbatim>\<open>v[b]\<close> for a \<^verbatim>\<open>bool\<close> \<open>b\<close>. A \<^verbatim>\<open>bool\<close> is an \<^verbatim>\<open>int\<close> (\<^verbatim>\<open>False\<close> is 0, \<^verbatim>\<open>True\<close> is 1), so
  a list or a string is indexed at that position; in a dict it is looked up as a key, and
  the keys of a JSON object are strings, none of which equals a \<^verbatim>\<open>bool\<close>.
\<close>

fun py_getitem_bool :: "json \<Rightarrow> bool \<Rightarrow> error + json" where
  "py_getitem_bool (JArr vs) b =
     (let i = (if b then 1 else 0)
      in if i < length vs then Inr (vs ! i) else Inl IndexError)"
| "py_getitem_bool (JStr s) b =
     (let i = (if b then 1 else 0)
      in if i < length s then Inr (JStr [s ! i]) else Inl IndexError)"
| "py_getitem_bool (JObj d) b = Inl KeyError"
| "py_getitem_bool v b = Inl TypeError"

text \<open>
  \<^verbatim>\<open>id == i\<close>: \<^verbatim>\<open>id\<close> is not bound in \<^verbatim>\<open>run\<close>, so it names the built-in function; a
  function is never equal to an \<^verbatim>\<open>int\<close>.
\<close>

definition id_eq :: "nat \<Rightarrow> bool" where
  "id_eq i = False"

subsection \<open>\<^verbatim>\<open>format_array\<close>\<close>

text \<open>
  The body of the loop over the keys of a dict. The accumulator is
  \<^verbatim>\<open>formatted_details\<close> with the events emitted so far. The recursive call on a
  non-string value is commented out in the source: the value is inserted by the f-string.
\<close>

fun format_entry :: "string \<times> event list \<Rightarrow> string \<times> json \<Rightarrow> string \<times> event list" where
  "format_entry (formatted_details, out) (key, JStr s) =
     (if str_in ''http'' s then (formatted_details, out @ [Print s])
      else (formatted_details @ '' \<newline> '' @ key @ '' : '' @ s, out))"
| "format_entry (formatted_details, out) (key, v) =
     (formatted_details @ '' \<newline> '' @ key @ '' : '' @ py_str v, out)"

text \<open>
  No operation in the \<^verbatim>\<open>try\<close> block can raise on a value that \<^verbatim>\<open>json.loads\<close> returns,
  so the two \<^verbatim>\<open>except\<close> branches are never entered and the model has none.
\<close>

fun format_array :: "json \<Rightarrow> string \<times> event list" where
  "format_array (JStr s) = (s, [])"
| "format_array (JObj kvs) = foldl format_entry ('''', []) kvs"
| "format_array (JArr vs) =
     (let rs = map format_array vs in (join '', '' (map fst rs), concat (map snd rs)))"
| "format_array v = ('''', [])"

subsection \<open>\<^verbatim>\<open>format_appbuilder_details\<close> and \<^verbatim>\<open>fetch_appbuilder_details\<close>\<close>

definition format_error_msg :: string where
  "format_error_msg = ''An error occurred while formatting appbuilder details: ''"

definition fetch_error_msg :: string where
  "fetch_error_msg = ''An Error occurred while fetching appbuilder details: ''"

text \<open>
  \<^verbatim>\<open>title + " \n "\<close> is evaluated before \<^verbatim>\<open>format_array\<close> is called, and adding a string
  to a title that is not a string raises \<^verbatim>\<open>TypeError\<close>.
\<close>

definition format_appbuilder_details :: "json \<Rightarrow> string option \<times> event list" where
  "format_appbuilder_details appbuilder_details =
     (case py_get appbuilder_details ''title'' (JStr '''') of
        Inl e \<Rightarrow> (None, [LogError format_error_msg e])
      | Inr (JStr title) \<Rightarrow>
          (case format_array appbuilder_details of
             (body, out) \<Rightarrow> (Some (title @ '' \<newline> '' @ body), out))
      | Inr _ \<Rightarrow> (None, [LogError format_error_msg TypeError]))"

definition fetch_appbuilder_details :: "json \<Rightarrow> string option \<times> event list" where
  "fetch_appbuilder_details prediction =
     (case py_get prediction ''document'' (JObj []) of
        Inl e \<Rightarrow> (None, [LogError fetch_error_msg e])
      | Inr document \<Rightarrow>
          (case py_get document ''derivedStructData'' (JObj []) of
             Inl e \<Rightarrow> (None, [LogError fetch_error_msg e])
           | Inr derivedStructData \<Rightarrow> format_appbuilder_details derivedStructData))"

subsection \<open>\<^verbatim>\<open>run\<close>\<close>

record request =
  url :: string
  data :: string
  headers :: "(string \<times> string) list"

text \<open>\<^verbatim>\<open>json.dumps\<close> with its default arguments (\<^verbatim>\<open>ensure_ascii\<close>, separators \<^verbatim>\<open>", "\<close> and \<^verbatim>\<open>": "\<close>).\<close>

definition dumps_char :: "char \<Rightarrow> string" where
  "dumps_char c =
     (let n = (of_char c :: nat)
      in if c = CHR 0x22 then [CHR 0x5C, CHR 0x22]
         else if c = CHR 0x5C then [CHR 0x5C, CHR 0x5C]
         else if c = CHR 0x08 then [CHR 0x5C, CHR ''b'']
         else if c = CHR 0x0C then [CHR 0x5C, CHR ''f'']
         else if c = CHR 0x0A then [CHR 0x5C, CHR ''n'']
         else if c = CHR 0x0D then [CHR 0x5C, CHR ''r'']
         else if c = CHR 0x09 then [CHR 0x5C, CHR ''t'']
         else if n < 0x20 \<or> 0x7E < n then
           [CHR 0x5C, CHR ''u'', CHR ''0'', CHR ''0'',
            ''0123456789abcdef'' ! (n div 16), ''0123456789abcdef'' ! (n mod 16)]
         else [c])"

definition dumps_str :: "string \<Rightarrow> string" where
  "dumps_str s = [CHR 0x22] @ concat (map dumps_char s) @ [CHR 0x22]"

fun json_dumps :: "json \<Rightarrow> string" where
  "json_dumps JNull = ''null''"
| "json_dumps (JBool b) = (if b then ''true'' else ''false'')"
| "json_dumps (JInt i) = str_int i"
| "json_dumps (JFloat t) =
     (if t = ''nan'' then ''NaN'' else if t = ''inf'' then ''Infinity''
      else if t = ''-inf'' then ''-Infinity'' else t)"
| "json_dumps (JStr s) = dumps_str s"
| "json_dumps (JArr vs) = ''['' @ join '', '' (map json_dumps vs) @ '']''"
| "json_dumps (JObj kvs) =
     ''{'' @ join '', '' (map (\<lambda>(k, v). dumps_str k @ '': '' @ json_dumps v) kvs) @ ''}''"

text \<open>The dict \<^verbatim>\<open>data\<close> that \<^verbatim>\<open>run\<close> builds; \<^verbatim>\<open>f"{page_size}"\<close> is \<^verbatim>\<open>str(page_size)\<close>.\<close>

definition request_data :: "string \<Rightarrow> json" where
  "request_data query =
     (let num_to_return = 2; page_size = num_to_return
      in JObj [(''query'', JStr query),
               (''page_size'', JStr (py_str (JInt page_size))),
               (''offset'', JInt 0)])"

definition build_request :: "string \<Rightarrow> string \<Rightarrow> string \<Rightarrow> request" where
  "build_request token gappbuilders_ds_url query =
     \<lparr> url = gappbuilders_ds_url,
       data = json_dumps (request_data query),
       headers = [(''Authorization'', ''Bearer '' @ token),
                  (''Content-Type'', ''application/json; charset=UTF-8'')] \<rparr>"

definition no_results :: string where
  "no_results = ''Google appbuilders did not find any appbuilders that match the description''"

text \<open>
  The loop \<^verbatim>\<open>for i in range(num_to_return)\<close>, over the list of the values of \<open>i\<close>, with
  \<^verbatim>\<open>appbuilders\<close> and the events emitted so far as the accumulator. An exception of the
  subscription leaves the loop and \<^verbatim>\<open>run\<close>.
\<close>

fun run_loop ::
  "json \<Rightarrow> nat list \<Rightarrow> string list \<times> event list \<Rightarrow> (error + string list) \<times> event list" where
  "run_loop search_results [] (appbuilders, out) = (Inr appbuilders, out)"
| "run_loop search_results (i # is) (appbuilders, out) =
     (case py_getitem_bool search_results (id_eq i) of
        Inl e \<Rightarrow> (Inl e, out)
      | Inr result \<Rightarrow>
          (case fetch_appbuilder_details result of
             (None, out') \<Rightarrow> run_loop search_results is (appbuilders, out @ out')
           | (Some details, out') \<Rightarrow>
               run_loop search_results is (appbuilders @ [details], out @ out')))"

text \<open>\<^verbatim>\<open>[f"{i+1}. {item}" for i, item in enumerate(appbuilders)]\<close>.\<close>

definition numbered :: "string list \<Rightarrow> string list" where
  "numbered appbuilders =
     map (\<lambda>(i, item). digits (i + 1) @ ''. '' @ item) (enumerate 0 appbuilders)"

text \<open>\<^verbatim>\<open>if len(answer) > 1024: answer = answer[:1024]\<close>.\<close>

definition truncate_answer :: "string \<Rightarrow> string" where
  "truncate_answer answer = (if length answer > 1024 then take 1024 answer else answer)"

text \<open>The f-string that \<^verbatim>\<open>run\<close> returns around \<^verbatim>\<open>answer\<close>.\<close>

definition template_head :: string where
  "template_head =
     ''\<newline>                thought: I have find: \<newline>                ''"

definition template_tail :: string where
  "template_tail =
     ''\<newline>                action: summarize answer and provide url link \<newline>                action_input:  ''"

definition template :: "string \<Rightarrow> string" where
  "template answer = template_head @ answer @ template_tail"

text \<open>
  \<^verbatim>\<open>run\<close> from the value \<^verbatim>\<open>json.loads(response.text)\<close> on: the part of the method after the
  request.
\<close>

definition run_response :: "json \<Rightarrow> (error + string) \<times> event list" where
  "run_response response =
     (case py_get response ''results'' (JObj []) of
        Inl e \<Rightarrow> (Inl e, [])
      | Inr search_results \<Rightarrow>
          (case py_len search_results of
             Inl e \<Rightarrow> (Inl e, [])
           | Inr num_to_return \<Rightarrow>
               (let out = [Print (''num_to_return:'' @ digits num_to_return)]
                in if num_to_return = 0 then (Inr no_results, out)
                   else (case run_loop search_results [0..<num_to_return] ([], out) of
                           (Inl e, out') \<Rightarrow> (Inl e, out')
                         | (Inr appbuilders, out') \<Rightarrow>
                             (Inr (template (truncate_answer (join ''\<newline>'' (numbered appbuilders)))),
                              out')))))"

text \<open>
  \<^verbatim>\<open>run\<close>. Its surroundings are parameters: \<open>get_token\<close> is the outcome of
  \<^verbatim>\<open>self.get_token()\<close>, and \<open>backend\<close> answers a request with the value that
  \<^verbatim>\<open>json.loads\<close> makes of the response text, or with the exception that
  \<^verbatim>\<open>requests.post\<close> or \<^verbatim>\<open>json.loads\<close> raises.
\<close>

definition run ::
  "error + string \<Rightarrow> (request \<Rightarrow> error + json) \<Rightarrow> string \<Rightarrow> string
     \<Rightarrow> (error + string) \<times> event list" where
  "run get_token backend gappbuilders_ds_url query =
     (case get_token of
        Inl e \<Rightarrow> (Inl e, [])
      | Inr token \<Rightarrow>
          (case backend (build_request token gappbuilders_ds_url query) of
             Inl e \<Rightarrow> (Inl e, [])
           | Inr response \<Rightarrow> run_response response))"

text \<open>
  A backend that answers every request with the same parsed response, for the examples.
\<close>

definition mock_backend :: "json \<Rightarrow> request \<Rightarrow> error + json" where
  "mock_backend response req = Inr response"

definition quoted :: "string \<Rightarrow> string" where
  "quoted s = [CHR 0x22] @ s @ [CHR 0x22]"

text \<open>
  The response of the worked example:
  \<^verbatim>\<open>{results:[{document:{derivedStructData:{title:"Weather API",desc:"hot"}}}]}\<close>.
\<close>

definition weather_result :: json where
  "weather_result =
     JObj [(''document'', JObj [(''derivedStructData'',
        JObj [(''title'', JStr ''Weather API''), (''desc'', JStr ''hot'')])])]"

definition weather_response :: json where
  "weather_response = JObj [(''results'', JArr [weather_result])]"

text \<open>
  Three results for the examples: two well-formed ones, and one without the
  \<^verbatim>\<open>derivedStructData\<close> substructure.
\<close>

definition result_A :: json where
  "result_A = JObj [(''document'', JObj [(''derivedStructData'', JObj [(''title'', JStr ''A'')])])]"

definition result_B :: json where
  "result_B = JObj [(''document'', JObj [(''derivedStructData'', JObj [(''title'', JStr ''B'')])])]"

definition result_malformed :: json where
  "result_malformed = JObj [(''document'', JObj [])]"

text \<open>
  The flattening as the specification words it, to compare \<^const>\<open>format_array\<close> with: a
  string is itself, an object is the newline-joined sequence of its \<^verbatim>\<open>key : value\<close> lines
  with every value that is not a string flattened in turn, an array is the comma-joined
  sequence of its flattened elements, and any other value is the empty string.
\<close>

fun flatten_spec :: "json \<Rightarrow> string" where
  "flatten_spec (JStr s) = s"
| "flatten_spec (JObj kvs) =
     join ''\<newline>'' (map (\<lambda>(key, value). key @ '' : '' @ flatten_spec value) kvs)"
| "flatten_spec (JArr vs) = join '', '' (map flatten_spec vs)"
| "flatten_spec v = ''''"

section \<open>Properties\<close>

subsection \<open>The loop of \<^verbatim>\<open>format_array\<close> over a dict\<close>

text \<open>
  An entry is suppressed when its value is a string that contains \<^verbatim>\<open>http\<close>; such an entry
  prints its value. Every other entry contributes one piece of text.
\<close>

fun suppressed :: "json \<Rightarrow> bool" where
  "suppressed (JStr s) = str_in ''http'' s"
| "suppressed v = False"

fun printed :: "string \<times> json \<Rightarrow> event list" where
  "printed (key, JStr s) = (if str_in ''http'' s then [Print s] else [])"
| "printed (key, v) = []"

definition entry_line :: "string \<times> json \<Rightarrow> string" where
  "entry_line kv = '' \<newline> '' @ fst kv @ '' : '' @ py_str (snd kv)"

lemma format_entry_eq:
  "format_entry (acc, out) kv =
     (if suppressed (snd kv) then acc else acc @ entry_line kv, out @ printed kv)"
  by (cases kv; cases "snd kv") (auto simp: entry_line_def)

lemma foldl_format_entry:
  "foldl format_entry (acc, out) kvs =
     (acc @ concat (map entry_line (filter (\<lambda>kv. \<not> suppressed (snd kv)) kvs)),
      out @ concat (map printed kvs))"
proof (induction kvs arbitrary: acc out)
  case Nil
  show ?case by simp
next
  case (Cons kv kvs)
  show ?case by (simp add: format_entry_eq Cons.IH)
qed

lemma format_array_dict:
  "format_array (JObj kvs) =
     (concat (map entry_line (filter (\<lambda>kv. \<not> suppressed (snd kv)) kvs)),
      concat (map printed kvs))"
  using foldl_format_entry [of "[]" "[]" kvs] by simp

subsection \<open>The loop of \<^verbatim>\<open>run\<close> over a list of results\<close>

text \<open>
  Whatever the value of \<open>i\<close>, the subscript \<^verbatim>\<open>id == i\<close> is \<^verbatim>\<open>False\<close>, so every iteration
  fetches the details of the first result.
\<close>

lemma run_loop_list:
  "run_loop (JArr (v # vs)) is (appbuilders, out) =
     (Inr (appbuilders @ concat (replicate (length is)
             (case fst (fetch_appbuilder_details v) of None \<Rightarrow> [] | Some d \<Rightarrow> [d]))),
      out @ concat (replicate (length is) (snd (fetch_appbuilder_details v))))"
proof (induction "is" arbitrary: appbuilders out)
  case Nil
  show ?case by simp
next
  case (Cons i "is")
  show ?case
    by (cases "fetch_appbuilder_details v"; cases "fst (fetch_appbuilder_details v)")
       (simp_all add: id_eq_def Cons.IH)
qed

lemma run_response_list:
  "map_of resp ''results'' = Some (JArr (v # vs)) \<Longrightarrow>
   fst (run_response (JObj resp)) =
     Inr (template (truncate_answer (join ''\<newline>'' (numbered
       (concat (replicate (Suc (length vs))
          (case fst (fetch_appbuilder_details v) of None \<Rightarrow> [] | Some d \<Rightarrow> [d])))))))"
  by (simp add: run_response_def run_loop_list Let_def del: upt_Suc replicate.simps)

lemma length_template: "length (template answer) = 151 + length answer"
  by (simp add: template_def template_head_def template_tail_def)

lemma length_truncate_answer: "length (truncate_answer answer) \<le> 1024"
  by (simp add: truncate_answer_def)

lemma concat_replicate_singleton: "concat (replicate n [x]) = replicate n x"
  by (induction n) simp_all

subsection \<open>Substrings\<close>

lemma str_in_iff: "str_in p s \<longleftrightarrow> (\<exists>a b. s = a @ p @ b)"
proof (induction s)
  case Nil
  show ?case by auto
next
  case (Cons c cs)
  show ?case
  proof
    assume "str_in p (c # cs)"
    then consider "prefix p (c # cs)" | "str_in p cs" by auto
    then show "\<exists>a b. c # cs = a @ p @ b"
    proof cases
      case 1
      then obtain b where "c # cs = p @ b" by (auto simp: prefix_def)
      then have "c # cs = [] @ p @ b" by simp
      then show ?thesis by blast
    next
      case 2
      then obtain a b where "cs = a @ p @ b" using Cons.IH by blast
      then have "c # cs = (c # a) @ p @ b" by simp
      then show ?thesis by blast
    qed
  next
    assume "\<exists>a b. c # cs = a @ p @ b"
    then obtain a b where ab: "c # cs = a @ p @ b" by blast
    show "str_in p (c # cs)"
    proof (cases a)
      case Nil
      then have "prefix p (c # cs)" using ab by (simp add: prefix_def)
      then show ?thesis by simp
    next
      case (Cons x a')
      then have "cs = a' @ p @ b" using ab by simp
      then have "str_in p cs" using Cons.IH by blast
      then show ?thesis by simp
    qed
  qed
qed

lemma str_in_replicate: "c \<notin> set p \<Longrightarrow> p \<noteq> [] \<Longrightarrow> \<not> str_in p (replicate n c)"
proof
  assume c: "c \<notin> set p" and p: "p \<noteq> []" and "str_in p (replicate n c)"
  then obtain a b where "replicate n c = a @ p @ b" by (auto simp: str_in_iff)
  then have "set p \<subseteq> set (replicate n c)"
    by (metis set_append Un_upper1 Un_upper2 subset_trans)
  then have "set p \<subseteq> {c}" using set_replicate_conv_if [of n c] by (auto split: if_splits)
  with c p show False by (cases p) auto
qed

subsection \<open>Claims\<close>

text \<open>
  C1. The claim: with \<open>n\<close> results, the \<open>i\<close>-th iteration of the loop of \<^verbatim>\<open>run\<close> formats
  the \<open>i\<close>-th result, and the entries are numbered from 1 in order. The code subscripts the
  list with \<^verbatim>\<open>id == i\<close>, which is \<^verbatim>\<open>False\<close>, that is position 0: on the two results
  \<open>A\<close> and \<open>B\<close> it returns the entry of \<open>A\<close> under both numbers and never reads \<open>B\<close>.
\<close>

theorem run_indexes_first_result:
  "fst (run (Inr ''token'') (mock_backend (JObj [(''results'', JArr [result_A, result_B])]))
          ''url'' ''query'') =
     Inr (template ''1. A \<newline>  \<newline> title : A\<newline>2. A \<newline>  \<newline> title : A'')"
  by (simp add: run_def mock_backend_def result_A_def result_B_def run_response_def
      fetch_appbuilder_details_def format_appbuilder_details_def id_eq_def numbered_def
      truncate_answer_def digits.simps)

text \<open>
  C2, as claimed, fails: a result without \<^verbatim>\<open>document.derivedStructData\<close> does not make
  \<^verbatim>\<open>fetch_appbuilder_details\<close> return \<^verbatim>\<open>None\<close>, and with three results of which this one
  is malformed the text returned by \<^verbatim>\<open>run\<close> has three numbered entries.
\<close>

theorem missing_substructure_not_skipped:
  "fetch_appbuilder_details result_malformed = (Some '' \<newline> '', [])
   \<and> fst (run (Inr ''token'')
             (mock_backend (JObj [(''results'', JArr [result_malformed, result_A, result_B])]))
             ''url'' ''query'') =
       Inr (template ''1.  \<newline> \<newline>2.  \<newline> \<newline>3.  \<newline> '')"
  by (simp add: run_def mock_backend_def result_A_def result_B_def result_malformed_def
      run_response_def fetch_appbuilder_details_def format_appbuilder_details_def id_eq_def
      numbered_def truncate_answer_def digits.simps)

text \<open>
  C2, amended. For a result whose \<^verbatim>\<open>document\<close> is missing, or whose \<^verbatim>\<open>document\<close> is a
  mapping without \<^verbatim>\<open>derivedStructData\<close>, the missing part defaults to the empty mapping and
  \<^verbatim>\<open>fetch_appbuilder_details\<close> returns the entry of the empty mapping, \<^verbatim>\<open>" \n "\<close>, logging
  nothing. Given three results of which one is such a result and the others are not
  fetched as \<^verbatim>\<open>None\<close>, the overall call does not fail, and the answer that \<^verbatim>\<open>run\<close> puts
  into its template is, before the cut to 1024 characters, the numbered list of exactly
  three entries, each of them the entry fetched for one of the three results.
\<close>

theorem three_results_three_entries:
  "map_of r ''document'' = None
     \<or> (map_of r ''document'' = Some (JObj d) \<and> map_of d ''derivedStructData'' = None) \<Longrightarrow>
   fetch_appbuilder_details (JObj r) = (Some '' \<newline> '', [])
   \<and> (backend (build_request token gappbuilders_ds_url query) = Inr (JObj resp)
        \<and> map_of resp ''results'' = Some (JArr rs)
        \<and> length rs = 3
        \<and> JObj r \<in> set rs
        \<and> (\<forall>p\<in>set rs. p \<noteq> JObj r \<longrightarrow> fst (fetch_appbuilder_details p) \<noteq> None)
      \<longrightarrow> (\<exists>ds. length ds = 3
             \<and> (\<forall>e\<in>set ds. \<exists>p\<in>set rs. fst (fetch_appbuilder_details p) = Some e)
             \<and> fst (run (Inr token) backend gappbuilders_ds_url query) =
                 Inr (template (truncate_answer (join ''\<newline>'' (numbered ds))))))"
proof (intro conjI impI)
  assume m: "map_of r ''document'' = None
     \<or> (map_of r ''document'' = Some (JObj d) \<and> map_of d ''derivedStructData'' = None)"
  then show f: "fetch_appbuilder_details (JObj r) = (Some '' \<newline> '', [])"
    by (auto simp: fetch_appbuilder_details_def format_appbuilder_details_def)
  assume a: "backend (build_request token gappbuilders_ds_url query) = Inr (JObj resp)
        \<and> map_of resp ''results'' = Some (JArr rs)
        \<and> length rs = 3
        \<and> JObj r \<in> set rs
        \<and> (\<forall>p\<in>set rs. p \<noteq> JObj r \<longrightarrow> fst (fetch_appbuilder_details p) \<noteq> None)"
  then obtain v vs where rs: "rs = v # vs" and vs: "length vs = 2"
    by (cases rs) auto
  have "fst (fetch_appbuilder_details v) \<noteq> None"
  proof (cases "v = JObj r")
    case True
    then show ?thesis using f by simp
  next
    case False
    then show ?thesis using a rs by simp
  qed
  then obtain e where e: "fst (fetch_appbuilder_details v) = Some e" by blast
  have res: "map_of resp ''results'' = Some (JArr (v # vs))" using a rs by simp
  have out: "fst (run (Inr token) backend gappbuilders_ds_url query) =
      Inr (template (truncate_answer (join ''\<newline>'' (numbered (replicate 3 e)))))"
    using a run_response_list [OF res] e vs
    by (simp add: run_def concat_replicate_singleton del: replicate.simps)
  have "length (replicate 3 e) = 3" by simp
  moreover have "\<forall>x\<in>set (replicate 3 e). \<exists>p\<in>set rs. fst (fetch_appbuilder_details p) = Some x"
    using e rs by auto
  ultimately show "\<exists>ds. length ds = 3
             \<and> (\<forall>e\<in>set ds. \<exists>p\<in>set rs. fst (fetch_appbuilder_details p) = Some e)
             \<and> fst (run (Inr token) backend gappbuilders_ds_url query) =
                 Inr (template (truncate_answer (join ''\<newline>'' (numbered ds))))"
    using out by blast
qed

theorem three_results_three_entries_witness:
  "(map_of [(''document'', JObj [])] ''document'' = None
      \<or> (map_of [(''document'', JObj [])] ''document'' = Some (JObj [])
          \<and> map_of [] ''derivedStructData'' = None))
   \<and> fetch_appbuilder_details (JObj [(''document'', JObj [])]) = (Some '' \<newline> '', [])
   \<and> mock_backend (JObj [(''results'', JArr [result_A, JObj [(''document'', JObj [])], result_B])])
        (build_request ''token'' ''url'' ''query'')
      = Inr (JObj [(''results'', JArr [result_A, JObj [(''document'', JObj [])], result_B])])
   \<and> map_of [(''results'', JArr [result_A, JObj [(''document'', JObj [])], result_B])] ''results''
      = Some (JArr [result_A, JObj [(''document'', JObj [])], result_B])
   \<and> length [result_A, JObj [(''document'', JObj [])], result_B] = 3
   \<and> JObj [(''document'', JObj [])] \<in> set [result_A, JObj [(''document'', JObj [])], result_B]
   \<and> fst (fetch_appbuilder_details result_A) \<noteq> None
   \<and> fst (fetch_appbuilder_details result_B) \<noteq> None
   \<and> (\<exists>ds. length ds = 3
        \<and> (\<forall>e\<in>set ds. \<exists>p\<in>set [result_A, JObj [(''document'', JObj [])], result_B].
               fst (fetch_appbuilder_details p) = Some e)
        \<and> fst (run (Inr ''token'')
                 (mock_backend (JObj [(''results'',
                    JArr [result_A, JObj [(''document'', JObj [])], result_B])]))
                 ''url'' ''query'') =
            Inr (template (truncate_answer (join ''\<newline>'' (numbered ds)))))"
proof -
  have h1: "map_of [(''document'', JObj [])] ''document'' = None
      \<or> (map_of [(''document'', JObj [])] ''document'' = Some (JObj [])
          \<and> map_of [] ''derivedStructData'' = None)"
    by simp
  have h2: "mock_backend (JObj [(''results'', JArr [result_A, JObj [(''document'', JObj [])], result_B])])
        (build_request ''token'' ''url'' ''query'')
      = Inr (JObj [(''results'', JArr [result_A, JObj [(''document'', JObj [])], result_B])])"
    by (simp add: mock_backend_def)
  have h3: "map_of [(''results'', JArr [result_A, JObj [(''document'', JObj [])], result_B])] ''results''
      = Some (JArr [result_A, JObj [(''document'', JObj [])], result_B])"
    by simp
  have h4: "length [result_A, JObj [(''document'', JObj [])], result_B] = 3" by simp
  have h5: "JObj [(''document'', JObj [])] \<in> set [result_A, JObj [(''document'', JObj [])], result_B]"
    by simp
  have h6: "\<forall>p\<in>set [result_A, JObj [(''document'', JObj [])], result_B].
         p \<noteq> JObj [(''document'', JObj [])] \<longrightarrow> fst (fetch_appbuilder_details p) \<noteq> None"
    by (simp add: result_A_def result_B_def fetch_appbuilder_details_def
        format_appbuilder_details_def)
  have h7: "fst (fetch_appbuilder_details result_A) \<noteq> None"
    by (simp add: result_A_def fetch_appbuilder_details_def format_appbuilder_details_def)
  have h8: "fst (fetch_appbuilder_details result_B) \<noteq> None"
    by (simp add: result_B_def fetch_appbuilder_details_def format_appbuilder_details_def)
  show ?thesis
    using three_results_three_entries [OF h1, of
      "mock_backend (JObj [(''results'', JArr [result_A, JObj [(''document'', JObj [])], result_B])])"
      "''token''" "''url''" "''query''"
      "[(''results'', JArr [result_A, JObj [(''document'', JObj [])], result_B])]"
      "[result_A, JObj [(''document'', JObj [])], result_B]"]
      h1 h2 h3 h4 h5 h6 h7 h8
    by blast
qed

text \<open>
  C3, as claimed, fails: the answer is cut to 1024 characters before it is put into the
  template, so the returned string is longer. With one result whose title is 1021 times
  \<^verbatim>\<open>a\<close>, the answer is cut to \<^verbatim>\<open>1. \<close> and the title, and the returned string has 1175
  characters.
\<close>

theorem run_longer_than_1024:
  "fst (run (Inr ''token'')
          (mock_backend (JObj [(''results'', JArr
             [JObj [(''document'', JObj [(''derivedStructData'',
                JObj [(''title'', JStr (replicate 1021 (CHR ''a'')))])])]])]))
          ''url'' ''query'') =
     Inr (template (''1. '' @ replicate 1021 (CHR ''a'')))
   \<and> 1024 < length (template (''1. '' @ replicate 1021 (CHR ''a'')))"
  by (simp add: run_def mock_backend_def run_response_def fetch_appbuilder_details_def
      format_appbuilder_details_def id_eq_def numbered_def truncate_answer_def digits.simps
      str_in_replicate length_template)

text \<open>
  C3, amended. For every response whose list of results is not empty, \<^verbatim>\<open>run\<close> returns the
  template around an answer of at most 1024 characters; the template adds 151 characters,
  so the returned string never exceeds 1175 characters.
\<close>

theorem run_answer_bounded:
  "backend (build_request token gappbuilders_ds_url query) = Inr (JObj resp) \<Longrightarrow>
   map_of resp ''results'' = Some (JArr (v # vs)) \<Longrightarrow>
   \<exists>answer. fst (run (Inr token) backend gappbuilders_ds_url query) = Inr (template answer)
     \<and> length answer \<le> 1024 \<and> length (template answer) \<le> 1175"
proof -
  assume b: "backend (build_request token gappbuilders_ds_url query) = Inr (JObj resp)"
    and r: "map_of resp ''results'' = Some (JArr (v # vs))"
  define answer where "answer = truncate_answer (join ''\<newline>'' (numbered
       (concat (replicate (Suc (length vs))
          (case fst (fetch_appbuilder_details v) of None \<Rightarrow> [] | Some d \<Rightarrow> [d])))))"
  have "fst (run (Inr token) backend gappbuilders_ds_url query) = Inr (template answer)"
    using b run_response_list [OF r] by (simp add: run_def answer_def)
  moreover have "length answer \<le> 1024"
    unfolding answer_def by (rule length_truncate_answer)
  ultimately show ?thesis by (auto simp: length_template)
qed

theorem run_answer_bounded_witness:
  "mock_backend (JObj [(''results'', JArr [weather_result])])
       (build_request ''token'' ''url'' ''weather'')
     = Inr (JObj [(''results'', JArr [weather_result])])
   \<and> map_of [(''results'', JArr [weather_result])] ''results'' = Some (JArr [weather_result])
   \<and> (\<exists>answer. fst (run (Inr ''token'') (mock_backend (JObj [(''results'', JArr [weather_result])]))
                       ''url'' ''weather'') = Inr (template answer)
        \<and> length answer \<le> 1024 \<and> length (template answer) \<le> 1175)"
  using run_answer_bounded [of "mock_backend (JObj [(''results'', JArr [weather_result])])"
      "''token''" "''url''" "''weather''" "[(''results'', JArr [weather_result])]"
      weather_result "[]"]
  by (simp add: mock_backend_def)

text \<open>
  C4, as claimed, fails: on the object \<^verbatim>\<open>{"a": {"b": "c"}}\<close> the code returns the line of
  \<^verbatim>\<open>a\<close> with the nested object written verbatim, \<^verbatim>\<open>{'b': 'c'}\<close>, after a leading
  space-newline-space, where the flattening of the specification gives \<^verbatim>\<open>a : b : c\<close>.
\<close>

theorem format_array_no_recursion:
  "fst (format_array (JObj [(''a'', JObj [(''b'', JStr ''c'')])])) = '' \<newline> a : {'b': 'c'}''
   \<and> flatten_spec (JObj [(''a'', JObj [(''b'', JStr ''c'')])]) = ''a : b : c''
   \<and> fst (format_array (JObj [(''a'', JObj [(''b'', JStr ''c'')])]))
       \<noteq> flatten_spec (JObj [(''a'', JObj [(''b'', JStr ''c'')])])"
  by (simp add: repr_str_def repr_char_def Let_def)

text \<open>
  C4, amended. For every mapping, \<^verbatim>\<open>format_array\<close> returns the concatenation, in insertion
  order, of one piece \<^verbatim>\<open>" \n key : value"\<close> for every entry whose value is not a string
  containing \<^verbatim>\<open>http\<close>; a value that is a string is inserted as it is, and a value that is
  not a string is inserted verbatim as its \<^verbatim>\<open>str()\<close> text, with no call of
  \<^verbatim>\<open>format_array\<close> on it.
\<close>

theorem format_array_dict_lines:
  "fst (format_array (JObj kvs)) =
     concat (map (\<lambda>(key, value). '' \<newline> '' @ key @ '' : '' @ py_str value)
                 (filter (\<lambda>(key, value). \<not> suppressed value) kvs))"
proof -
  have e: "entry_line = (\<lambda>(key, value). '' \<newline> '' @ key @ '' : '' @ py_str value)"
    by (auto simp: entry_line_def fun_eq_iff)
  have f: "(\<lambda>kv. \<not> suppressed (snd kv)) = (\<lambda>(key, value). \<not> suppressed value)"
    by (auto simp: fun_eq_iff)
  show ?thesis by (simp only: format_array_dict fst_conv e f)
qed

text \<open>
  C5. When the list of results in the response is empty, \<^verbatim>\<open>run\<close> returns exactly the
  fixed text "Google appbuilders did not find any appbuilders that match the description";
  the only thing it prints is the number of results.
\<close>

theorem run_empty_results:
  "backend (build_request token gappbuilders_ds_url query) = Inr (JObj resp) \<Longrightarrow>
   map_of resp ''results'' = Some (JArr []) \<Longrightarrow>
   run (Inr token) backend gappbuilders_ds_url query =
     (Inr ''Google appbuilders did not find any appbuilders that match the description'',
      [Print ''num_to_return:0''])"
  by (simp add: run_def run_response_def no_results_def digits.simps)

theorem run_empty_results_witness:
  "mock_backend (JObj [(''results'', JArr [])]) (build_request ''token'' ''url'' ''weather'')
     = Inr (JObj [(''results'', JArr [])])
   \<and> map_of [(''results'', JArr [])] ''results'' = Some (JArr [])
   \<and> run (Inr ''token'') (mock_backend (JObj [(''results'', JArr [])])) ''url'' ''weather'' =
     (Inr ''Google appbuilders did not find any appbuilders that match the description'',
      [Print ''num_to_return:0''])"
  using run_empty_results [of "mock_backend (JObj [(''results'', JArr [])])"
      "''token''" "''url''" "''weather''" "[(''results'', JArr [])]"]
  by (simp add: mock_backend_def)

text \<open>
  C6, as claimed, fails: in the worked example the text returned by \<^verbatim>\<open>run\<close> has the line
  \<^verbatim>\<open>title : Weather API\<close> between the title and the line of \<^verbatim>\<open>desc\<close>, so it does not
  contain \<^verbatim>\<open>"1. Weather API \n  \n desc : hot"\<close>.
\<close>

theorem weather_example_has_title_line:
  "fst (run (Inr ''token'') (mock_backend weather_response) ''url'' ''weather'') =
     Inr (template ''1. Weather API \<newline>  \<newline> title : Weather API \<newline> desc : hot'')
   \<and> \<not> str_in ''1. Weather API \<newline>  \<newline> desc : hot''
         (template ''1. Weather API \<newline>  \<newline> title : Weather API \<newline> desc : hot'')"
  by (simp add: run_def mock_backend_def weather_response_def weather_result_def
      run_response_def fetch_appbuilder_details_def format_appbuilder_details_def id_eq_def
      numbered_def truncate_answer_def template_def template_head_def template_tail_def
      digits.simps)

text \<open>
  C6, amended. For the query \<^verbatim>\<open>weather\<close> and the response of the worked example, the text
  returned by \<^verbatim>\<open>run\<close> contains
  \<^verbatim>\<open>"1. Weather API \n  \n title : Weather API \n desc : hot"\<close>.
\<close>

theorem weather_example:
  "\<exists>s. fst (run (Inr token) (mock_backend weather_response) gappbuilders_ds_url ''weather'')
          = Inr s
     \<and> str_in ''1. Weather API \<newline>  \<newline> title : Weather API \<newline> desc : hot'' s"
  by (simp add: run_def mock_backend_def weather_response_def weather_result_def
      run_response_def fetch_appbuilder_details_def format_appbuilder_details_def id_eq_def
      numbered_def truncate_answer_def template_def template_head_def template_tail_def
      digits.simps)

text \<open>
  C7. A string that does not contain \<^verbatim>\<open>http\<close> is returned by \<^verbatim>\<open>format_array\<close> as it is,
  so applying \<^verbatim>\<open>format_array\<close> to its own result on such a string changes nothing.
\<close>

theorem format_array_plain_string:
  "\<not> str_in ''http'' s \<Longrightarrow>
   fst (format_array (JStr s)) = s
   \<and> fst (format_array (JStr (fst (format_array (JStr s))))) = fst (format_array (JStr s))"
  by simp

theorem format_array_plain_string_witness:
  "\<not> str_in ''http'' ''plain text''
   \<and> fst (format_array (JStr ''plain text'')) = ''plain text''
   \<and> fst (format_array (JStr (fst (format_array (JStr ''plain text''))))) =
       fst (format_array (JStr ''plain text''))"
  using format_array_plain_string [of "''plain text''"] by simp

text \<open>
  C8. An entry of a mapping whose value is a string containing \<^verbatim>\<open>http\<close> leaves no trace in
  the text that \<^verbatim>\<open>format_array\<close> returns: the text is that of the mapping without the
  entry. The value is printed, between what the entries before it and after it print.
\<close>

theorem format_array_drops_http:
  "str_in ''http'' v \<Longrightarrow>
   fst (format_array (JObj (xs @ (key, JStr v) # ys))) = fst (format_array (JObj (xs @ ys)))
   \<and> snd (format_array (JObj (xs @ (key, JStr v) # ys))) =
       snd (format_array (JObj xs)) @ Print v # snd (format_array (JObj ys))"
  by (simp add: format_array_dict del: format_array.simps)

theorem format_array_drops_http_witness:
  "str_in ''http'' ''http://example.com''
   \<and> fst (format_array (JObj ([(''name'', JStr ''demo'')]
            @ (''link'', JStr ''http://example.com'') # [(''n'', JInt 3)])))
      = fst (format_array (JObj ([(''name'', JStr ''demo'')] @ [(''n'', JInt 3)])))
   \<and> snd (format_array (JObj ([(''name'', JStr ''demo'')]
            @ (''link'', JStr ''http://example.com'') # [(''n'', JInt 3)])))
      = snd (format_array (JObj [(''name'', JStr ''demo'')]))
          @ Print ''http://example.com'' # snd (format_array (JObj [(''n'', JInt 3)]))"
  using format_array_drops_http [of "''http://example.com''" "[(''name'', JStr ''demo'')]"
      "''link''" "[(''n'', JInt 3)]"]
  by simp

text \<open>
  C9. \<^verbatim>\<open>format_array\<close> returns every string argument unchanged and prints nothing, also
  when the string contains \<^verbatim>\<open>http\<close>; the same string as the value of an entry of a mapping
  is dropped from the text and printed.
\<close>

theorem format_array_string_unchanged:
  "format_array (JStr s) = (s, [])
   \<and> format_array (JStr (p @ ''http'' @ q)) = (p @ ''http'' @ q, [])
   \<and> format_array (JObj [(key, JStr (p @ ''http'' @ q))]) = ('''', [Print (p @ ''http'' @ q)])"
proof -
  have "str_in ''http'' (p @ ''http'' @ q)" unfolding str_in_iff by blast
  then show ?thesis by simp
qed

text \<open>
  C10. The request that \<^verbatim>\<open>run\<close> sends has the body
  \<^verbatim>\<open>{"query": <query>, "page_size": "2", "offset": 0}\<close>: \<^verbatim>\<open>page_size\<close> is the JSON string
  \<^verbatim>\<open>"2"\<close> and \<^verbatim>\<open>offset\<close> the JSON number \<^verbatim>\<open>0\<close>.
\<close>

theorem run_request_body:
  "run (Inr token) backend gappbuilders_ds_url query =
     (case backend \<lparr> url = gappbuilders_ds_url,
                     data = ''{'' @ quoted ''query'' @ '': '' @ dumps_str query @ '', ''
                              @ quoted ''page_size'' @ '': '' @ quoted ''2'' @ '', ''
                              @ quoted ''offset'' @ '': 0}'',
                     headers = [(''Authorization'', ''Bearer '' @ token),
                                (''Content-Type'', ''application/json; charset=UTF-8'')] \<rparr> of
        Inl e \<Rightarrow> (Inl e, [])
      | Inr response \<Rightarrow> run_response response)
   \<and> request_data query =
       JObj [(''query'', JStr query), (''page_size'', JStr ''2''), (''offset'', JInt 0)]"
  by (simp add: run_def build_request_def request_data_def quoted_def dumps_str_def
      dumps_char_def str_int_def digits.simps)

end
